theory Spec2Isabelle
  imports Main
begin

section \<open>RCTBaseMesh: the texture binding of a React VR mesh view\<close>

text \<open>
  The development embeds the texture handling of \<^verbatim>\<open>src/ReactVR/js/Views/BaseMesh.js\<close>:
  the constructor, \<^verbatim>\<open>_setTexture\<close> with its two promise reactions, and \<^verbatim>\<open>dispose\<close>.
  The object's fields are a record. The TextureManager, the promise machinery and the
  console are outside the file; what the object does to them is recorded in three
  lists carried with the object: the calls issued to the manager, the reactions that
  wait for a promise to settle, and the errors written to the console.
\<close>

subsection \<open>Data\<close>

text \<open>\<^verbatim>\<open>type ResourceSpecifier = void | null | string | {uri: string}\<close> (line 24).\<close>

datatype resource_specifier = Undefined | Null | Str string | Uri string

text \<open>A THREE.Texture: an object identity and the one field the file writes.\<close>

record three_texture =
  tex_id :: nat
  tex_needsUpdate :: bool

text \<open>A THREE.Material, as far as the file touches it: \<^verbatim>\<open>map\<close>, \<^verbatim>\<open>needsUpdate\<close>
  and whether \<^verbatim>\<open>dispose()\<close> has been called on it.\<close>

record three_material =
  mat_map :: "three_texture option"
  mat_needsUpdate :: bool
  mat_disposed :: bool

datatype manager_call =
    AddReference string
  | RemoveReference string
  | GetTextureForURL string

datatype js_error =
    InvalidTexture resource_specifier
  | LoadFailure string
  | NullTextureTypeError

text \<open>How the promise returned by \<^verbatim>\<open>getTextureForURL\<close> settles. A fulfilled promise
  carries a JavaScript value, which may be null.\<close>

datatype settlement = Fulfilled "three_texture option" | Rejected string

text \<open>
  The fields \<^verbatim>\<open>_textureURL\<close>, \<^verbatim>\<open>_loadingURL\<close>, \<^verbatim>\<open>_texture\<close>, \<^verbatim>\<open>_litMaterial\<close> and
  \<^verbatim>\<open>_unlitMaterial\<close> of the class, followed by the three lists of the environment:
  \<open>calls\<close> (oldest first), \<open>pending\<close> (the url captured by each pair of reactions
  passed to \<^verbatim>\<open>then\<close> and not yet run) and \<open>console\<close>.
\<close>

record base_mesh =
  textureURL :: "string option"
  loadingURL :: "string option"
  texture :: "three_texture option"
  litMaterial :: three_material
  unlitMaterial :: three_material
  calls :: "manager_call list"
  pending :: "string list"
  console :: "js_error list"

subsection \<open>JavaScript truthiness\<close>

text \<open>\<^verbatim>\<open>!value\<close> on a specifier: undefined, null and the empty string are falsy, an
  object is truthy.\<close>

fun truthy_value :: "resource_specifier \<Rightarrow> bool" where
  "truthy_value Undefined = False"
| "truthy_value Null = False"
| "truthy_value (Str u) = (u \<noteq> [])"
| "truthy_value (Uri u) = True"

text \<open>Truthiness of a \<^verbatim>\<open>null | string\<close>: null and the empty string are falsy.\<close>

fun truthy_url :: "string option \<Rightarrow> bool" where
  "truthy_url None = False"
| "truthy_url (Some u) = (u \<noteq> [])"

subsection \<open>The constructor\<close>

text \<open>A material as \<^verbatim>\<open>new THREE.MeshPhongMaterial({color: 0xffffff})\<close> and
  \<^verbatim>\<open>new THREE.MeshBasicMaterial({color: 0xffffff})\<close> build it (lines 47 and 48): no
  \<^verbatim>\<open>map\<close>, \<^verbatim>\<open>needsUpdate\<close> set, not disposed.\<close>

definition new_material :: three_material where
  "new_material = \<lparr>mat_map = None, mat_needsUpdate = True, mat_disposed = False\<rparr>"

text \<open>Lines 44 to 48: no texture, no url, two fresh materials. Nothing has been
  asked of the manager yet.\<close>

definition new_mesh :: base_mesh where
  "new_mesh = \<lparr>textureURL = None, loadingURL = None, texture = None,
     litMaterial = new_material, unlitMaterial = new_material,
     calls = [], pending = [], console = []\<rparr>"

subsection \<open>Releasing the bound texture\<close>

text \<open>
  Lines 121 to 128 of \<^verbatim>\<open>_setTexture\<close> and lines 207 to 214 of \<^verbatim>\<open>dispose\<close> are the
  same statements:
  \<^verbatim>\<open>if (this._texture) { this._texture = null;
       if (this._textureURL) { removeReference(this._textureURL); this._textureURL = null; } }\<close>
\<close>

definition releaseTexture :: "base_mesh \<Rightarrow> base_mesh" where
  "releaseTexture m =
     (case texture m of
        None \<Rightarrow> m
      | Some t \<Rightarrow>
          (if truthy_url (textureURL m)
           then m\<lparr>texture := None,
                  calls := calls m @ [RemoveReference (the (textureURL m))],
                  textureURL := None\<rparr>
           else m\<lparr>texture := None\<rparr>))"

subsection \<open>\<^verbatim>\<open>_setTexture\<close>\<close>

text \<open>
  \<^verbatim>\<open>extractURL\<close> is imported from \<^verbatim>\<open>../Utils/extractURL\<close>, which is not among the
  sources; it is a parameter \<open>ex\<close> of the model, returning \<open>None\<close> for null or
  undefined. The result pairs the object after the call with the exception thrown, if
  any (line 138).
\<close>

definition setTexture ::
  "(resource_specifier \<Rightarrow> string option) \<Rightarrow> resource_specifier \<Rightarrow> base_mesh
     \<Rightarrow> base_mesh \<times> js_error option" where
  "setTexture ex v m =
     (if \<not> truthy_value v then
        (let m1 = releaseTexture m in
         (m1\<lparr>litMaterial := (litMaterial m1)\<lparr>mat_map := None, mat_needsUpdate := True\<rparr>,
              unlitMaterial := (unlitMaterial m1)\<lparr>mat_map := None, mat_needsUpdate := True\<rparr>\<rparr>,
          None))
      else if \<not> truthy_url (ex v) then (m, Some (InvalidTexture v))
      else
        (let url = the (ex v) in
         (m\<lparr>loadingURL := Some url,
             calls := calls m @ [AddReference url, GetTextureForURL url],
             pending := pending m @ [url]\<rparr>,
          None)))"

text \<open>The reaction of lines 146 to 164, run when the promise for \<open>url\<close> is fulfilled.
  With a null value line 157 throws a TypeError after lines 152 to 156 have run; the
  \<^verbatim>\<open>catch\<close> of line 171 writes it to the console.\<close>

definition onFulfilled :: "string \<Rightarrow> three_texture option \<Rightarrow> base_mesh \<Rightarrow> base_mesh" where
  "onFulfilled url tex m =
     (if Some url \<noteq> loadingURL m then m\<lparr>calls := calls m @ [RemoveReference url]\<rparr>
      else
        (let m1 = m\<lparr>loadingURL := None\<rparr>;
             m2 = (if truthy_url (textureURL m1)
                   then m1\<lparr>calls := calls m1 @ [RemoveReference (the (textureURL m1))]\<rparr>
                   else m1)
         in case tex of
              None \<Rightarrow> m2\<lparr>texture := None, console := console m2 @ [NullTextureTypeError]\<rparr>
            | Some t \<Rightarrow>
                (let t' = t\<lparr>tex_needsUpdate := True\<rparr> in
                 m2\<lparr>texture := Some t',
                    textureURL := Some url,
                    litMaterial := (litMaterial m2)\<lparr>mat_map := Some t', mat_needsUpdate := True\<rparr>,
                    unlitMaterial := (unlitMaterial m2)\<lparr>mat_map := Some t', mat_needsUpdate := True\<rparr>\<rparr>)))"

text \<open>The reaction of lines 165 to 169, run when the promise for \<open>url\<close> is rejected.\<close>

definition onRejected :: "string \<Rightarrow> string \<Rightarrow> base_mesh \<Rightarrow> base_mesh" where
  "onRejected url err m =
     m\<lparr>calls := calls m @ [RemoveReference url],
       loadingURL := None,
       console := console m @ [LoadFailure err]\<rparr>"

subsection \<open>\<^verbatim>\<open>dispose\<close>\<close>

text \<open>Lines 206 to 216. \<^verbatim>\<open>super.dispose()\<close>, \<^verbatim>\<open>_geometry\<close> and \<^verbatim>\<open>mesh\<close> belong to the
  view composition and hold none of the fields above.\<close>

definition dispose :: "base_mesh \<Rightarrow> base_mesh" where
  "dispose m =
     (let m1 = releaseTexture m in
      m1\<lparr>litMaterial := (litMaterial m1)\<lparr>mat_disposed := True\<rparr>,
         unlitMaterial := (unlitMaterial m1)\<lparr>mat_disposed := True\<rparr>\<rparr>)"

subsection \<open>The event loop\<close>

text \<open>
  A promise reaction never runs inside the call that registered it: it runs later, as
  a step of its own. \<open>settle i r\<close> settles the promise of the \<open>i\<close>-th waiting pair of
  reactions with \<open>r\<close> and runs the matching reaction; there is nothing to do when no
  such pair waits.
\<close>

definition settle :: "nat \<Rightarrow> settlement \<Rightarrow> base_mesh \<Rightarrow> base_mesh" where
  "settle i r m =
     (if i < length (pending m) then
        (let url = pending m ! i;
             m1 = m\<lparr>pending := take i (pending m) @ drop (Suc i) (pending m)\<rparr>
         in case r of
              Fulfilled tex \<Rightarrow> onFulfilled url tex m1
            | Rejected err \<Rightarrow> onRejected url err m1)
      else m)"

datatype action = Bind resource_specifier | Settle nat settlement | Dispose

text \<open>An exception of \<^verbatim>\<open>_setTexture\<close> goes to the caller of the property setter; the
  object stays as the call left it.\<close>

fun step :: "(resource_specifier \<Rightarrow> string option) \<Rightarrow> base_mesh \<Rightarrow> action \<Rightarrow> base_mesh" where
  "step ex m (Bind v) = fst (setTexture ex v m)"
| "step ex m (Settle i r) = settle i r m"
| "step ex m Dispose = dispose m"

definition run :: "(resource_specifier \<Rightarrow> string option) \<Rightarrow> action list \<Rightarrow> base_mesh \<Rightarrow> base_mesh" where
  "run ex as m = foldl (step ex) m as"

subsection \<open>Counting references\<close>

fun addReferences :: "manager_call list \<Rightarrow> nat" where
  "addReferences [] = 0"
| "addReferences (AddReference u # cs) = Suc (addReferences cs)"
| "addReferences (c # cs) = addReferences cs"

fun removeReferences :: "manager_call list \<Rightarrow> nat" where
  "removeReferences [] = 0"
| "removeReferences (RemoveReference u # cs) = Suc (removeReferences cs)"
| "removeReferences (c # cs) = removeReferences cs"

text \<open>
  Modelled from the spec: key derivation, \<^verbatim>\<open>../Utils/extractURL\<close>, is missing from
  the sources. This instance, used for concrete runs only, derives the key of a
  string as the string and the key of an object as its \<^verbatim>\<open>uri\<close>.
\<close>

fun extractURL :: "resource_specifier \<Rightarrow> string option" where
  "extractURL (Str u) = Some u"
| "extractURL (Uri u) = Some u"
| "extractURL v = None"

definition tex1 :: three_texture where
  "tex1 = \<lparr>tex_id = 1, tex_needsUpdate = False\<rparr>"

definition tex2 :: three_texture where
  "tex2 = \<lparr>tex_id = 2, tex_needsUpdate = False\<rparr>"

subsection \<open>Runs with a well-behaved loader\<close>

text \<open>A loader that never fulfils its promise with null: every other action is allowed.\<close>

fun nonnull_action :: "action \<Rightarrow> bool" where
  "nonnull_action (Settle i (Fulfilled None)) = False"
| "nonnull_action a = True"

text \<open>The texture and its url are set together, the url is never the empty string,
  and no waiting reaction captured an empty url.\<close>

definition in_step :: "base_mesh \<Rightarrow> bool" where
  "in_step m \<longleftrightarrow> (texture m = None \<longleftrightarrow> textureURL m = None)
     \<and> textureURL m \<noteq> Some [] \<and> [] \<notin> set (pending m)"

text \<open>With such a loader the object holds one reference of its own exactly while a url
  is bound; \<open>balanced\<close> says that every other reference taken and not yet given back
  belongs to a reaction that still waits.\<close>

definition held :: "base_mesh \<Rightarrow> nat" where
  "held m = (if truthy_url (textureURL m) then 1 else 0)"

definition balanced :: "base_mesh \<Rightarrow> bool" where
  "balanced m \<longleftrightarrow>
     addReferences (calls m) = removeReferences (calls m) + length (pending m) + held m
     \<and> [] \<notin> set (pending m)"

subsection \<open>What the owner sees\<close>

text \<open>The class has no callback: the owner of the mesh learns of a texture through
  the two materials, whose \<^verbatim>\<open>map\<close> and \<^verbatim>\<open>needsUpdate\<close> lines 160 to 163 write.
  \<open>showing t m\<close> is what the materials of \<open>m\<close> are after those four lines ran with
  texture \<open>t\<close>.\<close>

definition shown :: "base_mesh \<Rightarrow> three_material \<times> three_material" where
  "shown m = (litMaterial m, unlitMaterial m)"

definition showing :: "three_texture \<Rightarrow> base_mesh \<Rightarrow> three_material \<times> three_material" where
  "showing t m =
     ((litMaterial m)\<lparr>mat_map := Some (t\<lparr>tex_needsUpdate := True\<rparr>), mat_needsUpdate := True\<rparr>,
      (unlitMaterial m)\<lparr>mat_map := Some (t\<lparr>tex_needsUpdate := True\<rparr>), mat_needsUpdate := True\<rparr>)"

fun shown_after :: "settlement \<Rightarrow> base_mesh \<Rightarrow> three_material \<times> three_material" where
  "shown_after (Fulfilled (Some t)) m = showing t m"
| "shown_after r m = shown m"

fun is_rejected :: "settlement \<Rightarrow> bool" where
  "is_rejected (Rejected e) = True"
| "is_rejected r = False"


section \<open>Properties\<close>

lemmas model_defs = run_def setTexture_def settle_def onFulfilled_def onRejected_def dispose_def
  releaseTexture_def Let_def new_mesh_def new_material_def tex1_def tex2_def

lemma Some_eq_loadingURL: "(Some u = loadingURL m) = (loadingURL m = Some u)"
  by auto

subsection \<open>The texture and its url stay in step\<close>

lemma in_step_new: "in_step new_mesh"
  by (simp add: in_step_def new_mesh_def)

lemma in_step_releaseTexture: "in_step m \<Longrightarrow> in_step (releaseTexture m)"
  by (auto simp add: in_step_def releaseTexture_def split: option.splits)

lemma in_step_setTexture: "in_step m \<Longrightarrow> in_step (fst (setTexture ex v m))"
  using in_step_releaseTexture [of m]
  by (cases "ex v") (auto simp add: in_step_def setTexture_def Let_def)

lemma in_step_dispose: "in_step m \<Longrightarrow> in_step (dispose m)"
  using in_step_releaseTexture [of m]
  by (auto simp add: in_step_def dispose_def Let_def)

lemma in_step_onFulfilled: "in_step m \<Longrightarrow> url \<noteq> [] \<Longrightarrow> in_step (onFulfilled url (Some t) m)"
  by (auto simp add: in_step_def onFulfilled_def Let_def Some_eq_loadingURL)

lemma in_step_onRejected: "in_step m \<Longrightarrow> in_step (onRejected url e m)"
  by (auto simp add: in_step_def onRejected_def)

lemma in_step_drop_pending:
  "in_step m \<Longrightarrow> in_step (m\<lparr>pending := take i (pending m) @ drop (Suc i) (pending m)\<rparr>)"
  by (auto simp add: in_step_def dest: in_set_takeD in_set_dropD)

lemma in_step_settle:
  assumes "in_step m" and "nonnull_action (Settle i r)"
  shows "in_step (settle i r m)"
proof (cases "i < length (pending m)")
  case False
  then show ?thesis using assms by (simp add: settle_def)
next
  case True
  then have u: "pending m ! i \<noteq> []"
    using assms(1) by (metis in_step_def nth_mem)
  let ?m1 = "m\<lparr>pending := take i (pending m) @ drop (Suc i) (pending m)\<rparr>"
  have m1: "in_step ?m1" using assms(1) by (rule in_step_drop_pending)
  show ?thesis
  proof (cases r)
    case (Fulfilled tex)
    then obtain t where "tex = Some t" using assms(2) by (cases tex) auto
    then show ?thesis
      using True Fulfilled in_step_onFulfilled [OF m1 u] by (simp add: settle_def Let_def)
  next
    case (Rejected e)
    then show ?thesis
      using True in_step_onRejected [OF m1] by (simp add: settle_def Let_def)
  qed
qed

lemma in_step_step: "in_step m \<Longrightarrow> nonnull_action a \<Longrightarrow> in_step (step ex m a)"
  by (cases a) (simp_all add: in_step_setTexture in_step_settle in_step_dispose)

lemma in_step_run: "in_step m \<Longrightarrow> list_all nonnull_action as \<Longrightarrow> in_step (run ex as m)"
  unfolding run_def
  by (induction as arbitrary: m) (simp_all add: in_step_step)

text \<open>
  C9. In every state reached from the constructor by \<^verbatim>\<open>_setTexture\<close> calls, promise
  settlements and \<^verbatim>\<open>dispose\<close> calls, the loader never fulfilling with null, \<^verbatim>\<open>_texture\<close>
  is null exactly when \<^verbatim>\<open>_textureURL\<close> is null.
\<close>

theorem C9_texture_iff_url:
  "list_all nonnull_action as \<Longrightarrow>
     (texture (run ex as new_mesh) = None) = (textureURL (run ex as new_mesh) = None)"
  using in_step_run [OF in_step_new, of as ex] by (simp add: in_step_def)

theorem C9_texture_iff_url_witness:
  "list_all nonnull_action
     [Bind (Str ''a''), Settle 0 (Fulfilled (Some tex1)), Bind (Str ''b''), Dispose]
   \<and> (texture (run extractURL
         [Bind (Str ''a''), Settle 0 (Fulfilled (Some tex1)), Bind (Str ''b''), Dispose]
         new_mesh) = None)
     = (textureURL (run extractURL
         [Bind (Str ''a''), Settle 0 (Fulfilled (Some tex1)), Bind (Str ''b''), Dispose]
         new_mesh) = None)"
  using C9_texture_iff_url
    [of "[Bind (Str ''a''), Settle 0 (Fulfilled (Some tex1)), Bind (Str ''b''), Dispose]" extractURL]
  by simp

subsection \<open>Invalid specifiers\<close>

text \<open>
  C8. A truthy specifier from which no url can be derived makes \<^verbatim>\<open>_setTexture\<close> throw
  before anything else happens: no call reaches the manager, no reaction is
  registered, and every field of the object is as it was.
\<close>

theorem C8_invalid_specifier:
  "truthy_value v \<Longrightarrow> \<not> truthy_url (ex v) \<Longrightarrow> setTexture ex v m = (m, Some (InvalidTexture v))"
  by (simp add: setTexture_def)

theorem C8_invalid_specifier_witness:
  "truthy_value (Uri []) \<and> \<not> truthy_url (extractURL (Uri []))
   \<and> setTexture extractURL (Uri []) new_mesh = (new_mesh, Some (InvalidTexture (Uri [])))"
  using C8_invalid_specifier [of "Uri []" extractURL new_mesh] by simp

subsection \<open>References taken and given back\<close>

lemma addReferences_append: "addReferences (xs @ ys) = addReferences xs + addReferences ys"
  by (induction xs rule: addReferences.induct) simp_all

lemma removeReferences_append:
  "removeReferences (xs @ ys) = removeReferences xs + removeReferences ys"
  by (induction xs rule: removeReferences.induct) simp_all

lemmas count_simps = addReferences_append removeReferences_append

lemma balanced_new: "balanced new_mesh"
  by (simp add: balanced_def held_def new_mesh_def)

lemma balanced_releaseTexture: "balanced m \<Longrightarrow> balanced (releaseTexture m)"
  by (auto simp add: balanced_def held_def releaseTexture_def count_simps split: option.splits)

lemma balanced_setTexture: "balanced m \<Longrightarrow> balanced (fst (setTexture ex v m))"
  using balanced_releaseTexture [of m]
  by (cases "ex v") (auto simp add: balanced_def held_def setTexture_def Let_def count_simps)

lemma balanced_dispose: "balanced m \<Longrightarrow> balanced (dispose m)"
  using balanced_releaseTexture [of m]
  by (auto simp add: balanced_def held_def dispose_def Let_def)

lemma balanced_settle:
  assumes "balanced m" and "nonnull_action (Settle i r)"
  shows "balanced (settle i r m)"
proof (cases "i < length (pending m)")
  case False
  then show ?thesis using assms by (simp add: settle_def)
next
  case True
  then have u: "pending m ! i \<noteq> []"
    using assms(1) by (metis balanced_def nth_mem)
  have len: "length (take i (pending m) @ drop (Suc i) (pending m)) + 1 = length (pending m)"
    using True by simp
  have rest: "[] \<notin> set (take i (pending m) @ drop (Suc i) (pending m))"
    using assms(1) by (auto simp add: balanced_def dest: in_set_takeD in_set_dropD)
  have cnt: "addReferences (calls m) = removeReferences (calls m) + length (pending m) + held m"
    using assms(1) by (simp add: balanced_def)
  show ?thesis
  proof (cases r)
    case (Fulfilled tex)
    then obtain t where "tex = Some t" using assms(2) by (cases tex) auto
    then show ?thesis
      using True Fulfilled u rest cnt len
      by (auto simp add: settle_def onFulfilled_def Let_def balanced_def held_def count_simps
               Some_eq_loadingURL
               simp del: length_append length_take length_drop)
  next
    case (Rejected e)
    then show ?thesis
      using True u rest cnt len
      by (auto simp add: settle_def onRejected_def Let_def balanced_def held_def count_simps
               simp del: length_append length_take length_drop)
  qed
qed

lemma balanced_step: "balanced m \<Longrightarrow> nonnull_action a \<Longrightarrow> balanced (step ex m a)"
  by (cases a) (simp_all add: balanced_setTexture balanced_settle balanced_dispose)

lemma balanced_run: "balanced m \<Longrightarrow> list_all nonnull_action as \<Longrightarrow> balanced (run ex as m)"
  unfolding run_def
  by (induction as arbitrary: m) (simp_all add: balanced_step)

text \<open>After any run the references taken exceed those given back by one for each
  reaction still waiting and one more while a url is bound. \<^verbatim>\<open>dispose\<close> is a step like
  the others here: what it leaves waiting can still bind a url afterwards.\<close>

lemma reference_balance:
  "list_all nonnull_action as \<Longrightarrow>
     addReferences (calls (run ex as new_mesh)) =
       removeReferences (calls (run ex as new_mesh)) + length (pending (run ex as new_mesh))
       + held (run ex as new_mesh)"
  using balanced_run [OF balanced_new, of as ex] by (simp add: balanced_def)

text \<open>
  C1. Every reference added is removed once \<^verbatim>\<open>dispose\<close> has run and every promise has
  settled. The run below is \<^verbatim>\<open>_setTexture('a')\<close>, then \<^verbatim>\<open>dispose()\<close> while the load is
  in flight, then the promise fulfilled: \<^verbatim>\<open>dispose\<close> leaves \<^verbatim>\<open>_loadingURL\<close> at \<^verbatim>\<open>'a'\<close>, the
  reaction finds its request current and binds the texture, and the reference added
  for \<^verbatim>\<open>'a'\<close> is never removed.
\<close>

theorem C1_dispose_during_load:
  "addReferences (calls (run extractURL
       [Bind (Str ''a''), Dispose, Settle 0 (Fulfilled (Some tex1))] new_mesh)) = 1
   \<and> removeReferences (calls (run extractURL
       [Bind (Str ''a''), Dispose, Settle 0 (Fulfilled (Some tex1))] new_mesh)) = 0
   \<and> pending (run extractURL
       [Bind (Str ''a''), Dispose, Settle 0 (Fulfilled (Some tex1))] new_mesh) = []
   \<and> textureURL (run extractURL
       [Bind (Str ''a''), Dispose, Settle 0 (Fulfilled (Some tex1))] new_mesh) = Some ''a''"
  by (simp add: model_defs)

subsection \<open>One request superseding another\<close>

lemma two_binds:
  assumes "truthy_value v1" "ex v1 = Some k1" "k1 \<noteq> []"
      and "truthy_value v2" "ex v2 = Some k2" "k2 \<noteq> []"
  shows "run ex [Bind v1, Bind v2] m =
           m\<lparr>loadingURL := Some k2,
              calls := calls m @ [AddReference k1, GetTextureForURL k1,
                                  AddReference k2, GetTextureForURL k2],
              pending := pending m @ [k1, k2]\<rparr>"
  using assms by (simp add: run_def setTexture_def)

lemma run_snoc: "run ex (as @ [a]) m = step ex (run ex as m) a"
  by (simp add: run_def)

text \<open>
  C2. \<^verbatim>\<open>_setTexture\<close> is called with a specifier of url \<open>k1\<close> and then, before that
  promise settles, with one of a different url \<open>k2\<close>. Whatever the two settlements
  \<open>r1\<close> and \<open>r2\<close> are and whichever comes first, the settlement of the first request
  writes neither the materials nor \<^verbatim>\<open>_texture\<close>, and after both the materials are
  either untouched or show the texture that the second promise delivered. When the
  first promise is rejected before the second settles the materials stay untouched.
\<close>

theorem C2_superseded_request:
  assumes "truthy_value v1" "ex v1 = Some k1" "k1 \<noteq> []"
      and "truthy_value v2" "ex v2 = Some k2" "k2 \<noteq> []"
      and "k1 \<noteq> k2" and "n = length (pending m)"
  shows "shown (run ex [Bind v1, Bind v2, Settle n r1] m) = shown m
     \<and> texture (run ex [Bind v1, Bind v2, Settle n r1] m) = texture m
     \<and> shown (run ex [Bind v1, Bind v2, Settle n r1, Settle n r2] m)
          = (if is_rejected r1 then shown m else shown_after r2 m)
     \<and> shown (run ex [Bind v1, Bind v2, Settle (Suc n) r2] m) = shown_after r2 m
     \<and> shown (run ex [Bind v1, Bind v2, Settle (Suc n) r2, Settle n r1] m) = shown_after r2 m"
proof -
  let ?b = "m\<lparr>loadingURL := Some k2,
              calls := calls m @ [AddReference k1, GetTextureForURL k1,
                                  AddReference k2, GetTextureForURL k2],
              pending := pending m @ [k1, k2]\<rparr>"
  have b: "run ex [Bind v1, Bind v2] m = ?b"
    using assms(1-6) by (rule two_binds)
  have first: "run ex [Bind v1, Bind v2, Settle n r1] m = settle n r1 ?b"
    using run_snoc [of ex "[Bind v1, Bind v2]" "Settle n r1" m] b by simp
  have second: "run ex [Bind v1, Bind v2, Settle (Suc n) r2] m = settle (Suc n) r2 ?b"
    using run_snoc [of ex "[Bind v1, Bind v2]" "Settle (Suc n) r2" m] b by simp
  have first2: "run ex [Bind v1, Bind v2, Settle n r1, Settle n r2] m
                  = settle n r2 (settle n r1 ?b)"
    using run_snoc [of ex "[Bind v1, Bind v2, Settle n r1]" "Settle n r2" m] first by simp
  have second2: "run ex [Bind v1, Bind v2, Settle (Suc n) r2, Settle n r1] m
                   = settle n r1 (settle (Suc n) r2 ?b)"
    using run_snoc [of ex "[Bind v1, Bind v2, Settle (Suc n) r2]" "Settle n r1" m] second by simp
  have s1: "settle n r1 ?b =
      (case r1 of
         Fulfilled tex \<Rightarrow>
           ?b\<lparr>pending := pending m @ [k2], calls := calls ?b @ [RemoveReference k1]\<rparr>
       | Rejected e \<Rightarrow>
           ?b\<lparr>pending := pending m @ [k2], calls := calls ?b @ [RemoveReference k1],
              loadingURL := None, console := console m @ [LoadFailure e]\<rparr>)"
    using assms(7,8)
    by (cases r1) (simp_all add: settle_def onFulfilled_def onRejected_def Let_def nth_append)
  have c1: "shown (settle n r1 ?b) = shown m \<and> texture (settle n r1 ?b) = texture m"
    unfolding s1 by (cases r1) (simp_all add: shown_def)
  have c2: "shown (settle n r2 (settle n r1 ?b))
              = (if is_rejected r1 then shown m else shown_after r2 m)"
    unfolding s1 using assms(7,8)
    by (cases r1; cases r2)
       (auto simp add: settle_def onFulfilled_def onRejected_def Let_def nth_append
             shown_def showing_def split: option.splits)
  have c3: "shown (settle (Suc n) r2 ?b) = shown_after r2 m"
    using assms(7,8)
    by (cases r2)
       (auto simp add: settle_def onFulfilled_def onRejected_def Let_def nth_append
             shown_def showing_def split: option.splits)
  have c4: "shown (settle n r1 (settle (Suc n) r2 ?b)) = shown_after r2 m"
    using assms(7,8)
    by (cases r1; cases r2)
       (auto simp add: settle_def onFulfilled_def onRejected_def Let_def nth_append
             shown_def showing_def split: option.splits)
  show ?thesis
    unfolding first second first2 second2 using c1 c2 c3 c4 by simp
qed

theorem C2_superseded_request_witness:
  "truthy_value (Str ''a'') \<and> extractURL (Str ''a'') = Some ''a'' \<and> ''a'' \<noteq> []
   \<and> truthy_value (Str ''b'') \<and> extractURL (Str ''b'') = Some ''b'' \<and> ''b'' \<noteq> []
   \<and> ''a'' \<noteq> ''b'' \<and> 0 = length (pending new_mesh)
   \<and> shown (run extractURL [Bind (Str ''a''), Bind (Str ''b''),
        Settle 0 (Fulfilled (Some tex1))] new_mesh) = shown new_mesh
   \<and> shown (run extractURL [Bind (Str ''a''), Bind (Str ''b''),
        Settle 0 (Fulfilled (Some tex1)), Settle 0 (Fulfilled (Some tex2))] new_mesh)
       = showing tex2 new_mesh
   \<and> shown (run extractURL [Bind (Str ''a''), Bind (Str ''b''),
        Settle (Suc 0) (Fulfilled (Some tex2)), Settle 0 (Fulfilled (Some tex1))] new_mesh)
       = showing tex2 new_mesh"
  using C2_superseded_request [where ?v1.0 = "Str ''a''" and ex = extractURL and ?k1.0 = "''a''"
      and ?v2.0 = "Str ''b''" and ?k2.0 = "''b''" and n = 0 and m = new_mesh
      and ?r1.0 = "Fulfilled (Some tex1)" and ?r2.0 = "Fulfilled (Some tex2)"]
  by (simp add: new_mesh_def)

subsection \<open>Binding a url\<close>

text \<open>
  C3, as the code has it. There is no test of the new url against \<^verbatim>\<open>_textureURL\<close> or
  \<^verbatim>\<open>_loadingURL\<close>: a call whose url equals the bound or the loading one is handled as
  any other. It adds one reference, asks the manager for the texture, registers one
  more pair of reactions and sets \<^verbatim>\<open>_loadingURL\<close> to the url; the bound url, the bound
  texture and the materials are as before.
\<close>

theorem C3_same_url_bind:
  assumes "truthy_value v" and "ex v = Some k" and "k \<noteq> []"
    and "textureURL m = Some k \<or> loadingURL m = Some k"
  shows "setTexture ex v m =
           (m\<lparr>loadingURL := Some k,
               calls := calls m @ [AddReference k, GetTextureForURL k],
               pending := pending m @ [k]\<rparr>, None)"
  using assms by (simp add: setTexture_def)

theorem C3_same_url_bind_witness:
  "truthy_value (Str ''a'') \<and> extractURL (Str ''a'') = Some ''a'' \<and> ''a'' \<noteq> []
   \<and> (textureURL (run extractURL [Bind (Str ''a'')] new_mesh) = Some ''a''
        \<or> loadingURL (run extractURL [Bind (Str ''a'')] new_mesh) = Some ''a'')
   \<and> calls (fst (setTexture extractURL (Str ''a'') (run extractURL [Bind (Str ''a'')] new_mesh)))
       = [AddReference ''a'', GetTextureForURL ''a'', AddReference ''a'', GetTextureForURL ''a'']
   \<and> pending (fst (setTexture extractURL (Str ''a'') (run extractURL [Bind (Str ''a'')] new_mesh)))
       = [''a'', ''a'']"
proof -
  let ?m = "run extractURL [Bind (Str ''a'')] new_mesh"
  have l: "textureURL ?m = Some ''a'' \<or> loadingURL ?m = Some ''a''"
    by (simp add: model_defs)
  have c: "calls ?m = [AddReference ''a'', GetTextureForURL ''a'']"
    and p: "pending ?m = [''a'']"
    by (simp_all add: model_defs)
  have "setTexture extractURL (Str ''a'') ?m =
          (?m\<lparr>loadingURL := Some ''a'',
              calls := calls ?m @ [AddReference ''a'', GetTextureForURL ''a''],
              pending := pending ?m @ [''a'']\<rparr>, None)"
    using l by (intro C3_same_url_bind) simp_all
  then show ?thesis using l c p by simp
qed

text \<open>The url \<^verbatim>\<open>'a'\<close> is bound and nothing is loading; binding \<^verbatim>\<open>'a'\<close> again issues two
  more calls to the manager, leaves a reaction waiting and changes \<^verbatim>\<open>_loadingURL\<close>.\<close>

theorem C3_same_url_counterexample:
  "textureURL (run extractURL [Bind (Str ''a''), Settle 0 (Fulfilled (Some tex1))] new_mesh)
     = Some ''a''
   \<and> calls (run extractURL [Bind (Str ''a''), Settle 0 (Fulfilled (Some tex1))] new_mesh)
     = [AddReference ''a'', GetTextureForURL ''a'']
   \<and> calls (run extractURL
        [Bind (Str ''a''), Settle 0 (Fulfilled (Some tex1)), Bind (Str ''a'')] new_mesh)
     = [AddReference ''a'', GetTextureForURL ''a'', AddReference ''a'', GetTextureForURL ''a'']
   \<and> pending (run extractURL
        [Bind (Str ''a''), Settle 0 (Fulfilled (Some tex1)), Bind (Str ''a'')] new_mesh)
     = [''a'']
   \<and> loadingURL (run extractURL
        [Bind (Str ''a''), Settle 0 (Fulfilled (Some tex1)), Bind (Str ''a'')] new_mesh)
     \<noteq> loadingURL (run extractURL
        [Bind (Str ''a''), Settle 0 (Fulfilled (Some tex1))] new_mesh)"
  by (simp add: model_defs)

subsection \<open>The reactions\<close>

text \<open>
  C7. A promise registered by \<^verbatim>\<open>_setTexture\<close> is fulfilled with a texture. When its url
  is still \<^verbatim>\<open>_loadingURL\<close>, the reference of the url bound before, if any, is removed,
  \<^verbatim>\<open>_textureURL\<close> becomes the url, \<^verbatim>\<open>_loadingURL\<close> becomes null, the texture is stored
  and both materials show it. Otherwise the reference taken for the url is removed
  and nothing else changes.
\<close>

theorem C7_fulfilled:
  assumes "i < length (pending m)" and "textureURL m \<noteq> Some []"
  shows "(loadingURL m = Some (pending m ! i) \<longrightarrow>
            settle i (Fulfilled (Some t)) m =
              m\<lparr>pending := take i (pending m) @ drop (Suc i) (pending m),
                 calls := (case textureURL m of None \<Rightarrow> calls m
                           | Some old \<Rightarrow> calls m @ [RemoveReference old]),
                 textureURL := Some (pending m ! i),
                 loadingURL := None,
                 texture := Some (t\<lparr>tex_needsUpdate := True\<rparr>),
                 litMaterial := (litMaterial m)\<lparr>mat_map := Some (t\<lparr>tex_needsUpdate := True\<rparr>),
                                                 mat_needsUpdate := True\<rparr>,
                 unlitMaterial := (unlitMaterial m)\<lparr>mat_map := Some (t\<lparr>tex_needsUpdate := True\<rparr>),
                                                     mat_needsUpdate := True\<rparr>\<rparr>)
       \<and> (loadingURL m \<noteq> Some (pending m ! i) \<longrightarrow>
            settle i (Fulfilled (Some t)) m =
              m\<lparr>pending := take i (pending m) @ drop (Suc i) (pending m),
                 calls := calls m @ [RemoveReference (pending m ! i)]\<rparr>)"
  using assms by (auto simp add: settle_def onFulfilled_def Let_def split: option.splits)

theorem C7_fulfilled_witness:
  "0 < length (pending (run extractURL [Bind (Str ''a''), Bind (Str ''b'')] new_mesh))
   \<and> textureURL (run extractURL [Bind (Str ''a''), Bind (Str ''b'')] new_mesh) \<noteq> Some []
   \<and> loadingURL (run extractURL [Bind (Str ''a''), Bind (Str ''b'')] new_mesh) \<noteq> Some ''a''
   \<and> pending (run extractURL [Bind (Str ''a''), Bind (Str ''b'')] new_mesh) ! 0 = ''a''
   \<and> settle 0 (Fulfilled (Some tex1))
        (run extractURL [Bind (Str ''a''), Bind (Str ''b'')] new_mesh)
      = (run extractURL [Bind (Str ''a''), Bind (Str ''b'')] new_mesh)
          \<lparr>pending := [''b''],
           calls := [AddReference ''a'', GetTextureForURL ''a'',
                     AddReference ''b'', GetTextureForURL ''b'', RemoveReference ''a'']\<rparr>"
  using C7_fulfilled [of 0 "run extractURL [Bind (Str ''a''), Bind (Str ''b'')] new_mesh" tex1]
  by (simp add: run_def setTexture_def Let_def new_mesh_def)

text \<open>
  C4. A rejected promise: the reaction of lines 165 to 169 removes the reference and
  then sets \<^verbatim>\<open>_loadingURL\<close> to null without comparing it with its own url, as the
  other reaction does at line 147. In the run below \<^verbatim>\<open>'a'\<close> is superseded by \<^verbatim>\<open>'b'\<close>
  and then fails: \<^verbatim>\<open>_loadingURL\<close>, which was \<^verbatim>\<open>'b'\<close>, is null afterwards, and when the
  promise for \<^verbatim>\<open>'b'\<close> is fulfilled its reaction takes the request for stale, gives the
  reference back and binds nothing.
\<close>

theorem C4_stale_rejection:
  "loadingURL (run extractURL [Bind (Str ''a''), Bind (Str ''b'')] new_mesh) = Some ''b''
   \<and> loadingURL (run extractURL
        [Bind (Str ''a''), Bind (Str ''b''), Settle 0 (Rejected ''e'')] new_mesh) = None
   \<and> pending (run extractURL
        [Bind (Str ''a''), Bind (Str ''b''), Settle 0 (Rejected ''e'')] new_mesh) = [''b'']
   \<and> texture (run extractURL [Bind (Str ''a''), Bind (Str ''b''), Settle 0 (Rejected ''e''),
        Settle 0 (Fulfilled (Some tex2))] new_mesh) = None
   \<and> calls (run extractURL [Bind (Str ''a''), Bind (Str ''b''), Settle 0 (Rejected ''e''),
        Settle 0 (Fulfilled (Some tex2))] new_mesh)
       = [AddReference ''a'', GetTextureForURL ''a'', AddReference ''b'', GetTextureForURL ''b'',
          RemoveReference ''a'', RemoveReference ''b'']"
  by (simp add: model_defs)

subsection \<open>Clearing and disposing\<close>

text \<open>
  C5. \<^verbatim>\<open>_setTexture\<close> with a falsy specifier while a load is in flight: the branch of
  lines 120 to 135 returns without writing \<^verbatim>\<open>_loadingURL\<close>. In the run below the
  request for \<^verbatim>\<open>'a'\<close> is still current after the call with null, so its fulfilment
  binds \<^verbatim>\<open>'a'\<close> and puts the texture on the materials that the call had cleared.
\<close>

theorem C5_clear_during_load:
  "loadingURL (run extractURL [Bind (Str ''a''), Bind Null] new_mesh) = Some ''a''
   \<and> textureURL (run extractURL
        [Bind (Str ''a''), Bind Null, Settle 0 (Fulfilled (Some tex1))] new_mesh) = Some ''a''
   \<and> mat_map (litMaterial (run extractURL
        [Bind (Str ''a''), Bind Null, Settle 0 (Fulfilled (Some tex1))] new_mesh))
       = Some (tex1\<lparr>tex_needsUpdate := True\<rparr>)
   \<and> calls (run extractURL
        [Bind (Str ''a''), Bind Null, Settle 0 (Fulfilled (Some tex1))] new_mesh)
       = [AddReference ''a'', GetTextureForURL ''a'']"
  by (simp add: model_defs)

text \<open>
  C6, as the code has it. With a texture bound, \<^verbatim>\<open>dispose\<close> removes the reference of the
  bound url, once, and clears \<^verbatim>\<open>_textureURL\<close> and \<^verbatim>\<open>_texture\<close>; it registers nothing.
  Nothing marks the object as disposed: a later \<^verbatim>\<open>_setTexture\<close> with a url is handled
  as on any other object, adding a reference and asking for the texture.
\<close>

theorem C6_dispose:
  assumes "texture m \<noteq> None" and "textureURL m = Some k" and "k \<noteq> []"
    and "truthy_value v" and "ex v = Some u" and "u \<noteq> []"
  shows "calls (dispose m) = calls m @ [RemoveReference k]
    \<and> textureURL (dispose m) = None
    \<and> texture (dispose m) = None
    \<and> pending (dispose m) = pending m
    \<and> setTexture ex v (dispose m) =
        ((dispose m)\<lparr>loadingURL := Some u,
            calls := calls m @ [RemoveReference k, AddReference u, GetTextureForURL u],
            pending := pending m @ [u]\<rparr>, None)"
  using assms
  by (auto simp add: setTexture_def dispose_def releaseTexture_def Let_def split: option.splits)

theorem C6_dispose_witness:
  "texture (run extractURL [Bind (Str ''x''), Settle 0 (Fulfilled (Some tex1))] new_mesh) \<noteq> None
   \<and> textureURL (run extractURL [Bind (Str ''x''), Settle 0 (Fulfilled (Some tex1))] new_mesh)
       = Some ''x''
   \<and> ''x'' \<noteq> [] \<and> truthy_value (Str ''y'') \<and> extractURL (Str ''y'') = Some ''y'' \<and> ''y'' \<noteq> []
   \<and> calls (dispose (run extractURL
        [Bind (Str ''x''), Settle 0 (Fulfilled (Some tex1))] new_mesh))
       = [AddReference ''x'', GetTextureForURL ''x'', RemoveReference ''x'']
   \<and> textureURL (dispose (run extractURL
        [Bind (Str ''x''), Settle 0 (Fulfilled (Some tex1))] new_mesh)) = None
   \<and> calls (fst (setTexture extractURL (Str ''y'') (dispose (run extractURL
        [Bind (Str ''x''), Settle 0 (Fulfilled (Some tex1))] new_mesh))))
       = [AddReference ''x'', GetTextureForURL ''x'', RemoveReference ''x'',
          AddReference ''y'', GetTextureForURL ''y'']"
proof -
  let ?m = "run extractURL [Bind (Str ''x''), Settle 0 (Fulfilled (Some tex1))] new_mesh"
  have t: "texture ?m \<noteq> None" and k: "textureURL ?m = Some ''x''"
    and c: "calls ?m = [AddReference ''x'', GetTextureForURL ''x'']"
    by (simp_all add: model_defs)
  have "calls (dispose ?m) = calls ?m @ [RemoveReference ''x'']
    \<and> textureURL (dispose ?m) = None
    \<and> texture (dispose ?m) = None
    \<and> pending (dispose ?m) = pending ?m
    \<and> setTexture extractURL (Str ''y'') (dispose ?m) =
        ((dispose ?m)\<lparr>loadingURL := Some ''y'',
            calls := calls ?m @ [RemoveReference ''x'', AddReference ''y'', GetTextureForURL ''y''],
            pending := pending ?m @ [''y'']\<rparr>, None)"
    using t k by (intro C6_dispose) simp_all
  then show ?thesis using t k c by simp
qed

text \<open>The url \<^verbatim>\<open>'x'\<close> is bound and the object disposed; \<^verbatim>\<open>_setTexture('x')\<close> then adds a
  reference and starts a load.\<close>

theorem C6_dispose_counterexample:
  "calls (run extractURL
      [Bind (Str ''x''), Settle 0 (Fulfilled (Some tex1)), Dispose] new_mesh)
     = [AddReference ''x'', GetTextureForURL ''x'', RemoveReference ''x'']
   \<and> calls (run extractURL
      [Bind (Str ''x''), Settle 0 (Fulfilled (Some tex1)), Dispose, Bind (Str ''x'')] new_mesh)
     = [AddReference ''x'', GetTextureForURL ''x'', RemoveReference ''x'',
        AddReference ''x'', GetTextureForURL ''x'']
   \<and> pending (run extractURL
      [Bind (Str ''x''), Settle 0 (Fulfilled (Some tex1)), Dispose, Bind (Str ''x'')] new_mesh)
     = [''x'']"
  by (simp add: model_defs)




end
